theory Spec2Isabelle
  imports Main "HOL-Library.Word"
begin

section \<open>Python values\<close>

text \<open>
  The module \<^verbatim>\<open>scrapy/http/request/__init__.py\<close> is dynamically typed: the constructor
  of \<^verbatim>\<open>Request\<close> receives arbitrary objects and checks some of them with
  \<^verbatim>\<open>isinstance\<close> and \<^verbatim>\<open>callable\<close>. Values are therefore one datatype. A function object
  is identified by a number (Python's \<^verbatim>\<open>is\<close> on functions is equality of these numbers);
  a bound method carries the number of its \<^verbatim>\<open>__func__\<close> and the number of its
  \<^verbatim>\<open>__self__\<close>. \<^verbatim>\<open>PHeaders\<close> is an instance of the \<^verbatim>\<open>Headers\<close> class (a \<^verbatim>\<open>dict\<close>
  subclass) with its stored entries. Strings are lists of 8-bit characters, so the model
  covers text within that range.
\<close>

datatype pyval =
    PNone
  | PBool bool
  | PInt int
  | PStr string
  | PBytes "8 word list"
  | PList "pyval list"
  | PDict "(pyval \<times> pyval) list"
  | PHeaders "(pyval \<times> pyval) list"
  | PFunction nat
  | PMethod nat nat

type_synonym kwargs = "(string \<times> pyval) list"

text \<open>
  The object handed to \<^verbatim>\<open>to_dict\<close> as \<^verbatim>\<open>spider\<close>: its truth value (\<^verbatim>\<open>bool(obj)\<close>, which
  \<^verbatim>\<open>obj and ...\<close> tests) and the list that
  \<^verbatim>\<open>inspect.getmembers(obj, predicate=inspect.ismethod)\<close> returns for it, each bound
  method given by its name and the number of its \<^verbatim>\<open>__func__\<close>.
\<close>

record spider =
  sp_id :: nat
  sp_truthy :: bool
  sp_members :: "(string \<times> nat) list"

text \<open>
  Every \<^verbatim>\<open>raise\<close> of the module is a constructor, carrying the values its message
  names: the five of \<^verbatim>\<open>__init__\<close> and \<^verbatim>\<open>_set_url\<close>, and the \<^verbatim>\<open>ValueError\<close> of
  \<^verbatim>\<open>_find_method\<close> with the function and the object searched. \<^verbatim>\<open>TypeError_to_bytes\<close> is
  raised by the helper \<^verbatim>\<open>to_bytes\<close>; the next three are the \<^verbatim>\<open>TypeError\<close>s of Python's
  call protocol (a keyword that is no parameter, no \<^verbatim>\<open>url\<close>, a positional argument
  for a parameter also given by keyword). \<^verbatim>\<open>Unsupported_cls\<close> marks a call of \<^verbatim>\<open>replace\<close>
  that asks for another class, which the model does not follow. \<^verbatim>\<open>External\<close> is an
  exception raised inside a collaborator that is not part of the module.
\<close>

datatype error =
    TypeError_url pyval
  | ValueError_missing_scheme string
  | TypeError_priority pyval
  | TypeError_callback pyval
  | TypeError_errback pyval
  | ValueError_find_method pyval "spider option"
  | TypeError_to_bytes pyval
  | TypeError_unexpected_keyword string
  | TypeError_missing_url
  | TypeError_positional
  | Unsupported_cls
  | External string

text \<open>
  The collaborators the module imports or calls and that are not defined in it:
  \<^verbatim>\<open>w3lib.url.safe_url_string\<close>, \<^verbatim>\<open>scrapy.utils.url.escape_ajax\<close>, \<^verbatim>\<open>str.encode\<close>,
  the class \<^verbatim>\<open>scrapy.http.headers.Headers\<close>, \<^verbatim>\<open>scrapy.utils.curl.curl_to_request_kwargs\<close>,
  and the builtins \<^verbatim>\<open>dict\<close>, \<^verbatim>\<open>list\<close> and \<^verbatim>\<open>str\<close> on the values for which the model
  gives no equation of its own. Each is a parameter; each may raise, except \<^verbatim>\<open>str\<close>.
\<close>

record env =
  safe_url_string :: "string \<Rightarrow> pyval \<Rightarrow> error + string"
  escape_ajax :: "string \<Rightarrow> error + string"
  str_encode :: "string \<Rightarrow> pyval \<Rightarrow> error + 8 word list"
  Headers :: "pyval \<Rightarrow> pyval \<Rightarrow> error + (pyval \<times> pyval) list"
  curl_to_request_kwargs :: "string \<Rightarrow> pyval \<Rightarrow> error + kwargs"
  builtin_dict :: "pyval \<Rightarrow> error + (pyval \<times> pyval) list"
  builtin_list :: "pyval \<Rightarrow> error + pyval list"
  builtin_str :: "pyval \<Rightarrow> string"

subsection \<open>Builtins\<close>

fun py_truthy :: "pyval \<Rightarrow> bool" where
  "py_truthy PNone = False"
| "py_truthy (PBool b) = b"
| "py_truthy (PInt i) = (i \<noteq> 0)"
| "py_truthy (PStr s) = (s \<noteq> [])"
| "py_truthy (PBytes b) = (b \<noteq> [])"
| "py_truthy (PList xs) = (xs \<noteq> [])"
| "py_truthy (PDict d) = (d \<noteq> [])"
| "py_truthy (PHeaders d) = (d \<noteq> [])"
| "py_truthy (PFunction f) = True"
| "py_truthy (PMethod f s) = True"

definition py_or :: "pyval \<Rightarrow> pyval \<Rightarrow> pyval" where
  "py_or a b = (if py_truthy a then a else b)"

fun is_callable :: "pyval \<Rightarrow> bool" where
  "is_callable (PFunction f) = True"
| "is_callable (PMethod f s) = True"
| "is_callable v = False"


text \<open>\<^verbatim>\<open>isinstance(v, int)\<close>: \<^verbatim>\<open>bool\<close> is a subclass of \<^verbatim>\<open>int\<close>.\<close>

fun is_int :: "pyval \<Rightarrow> bool" where
  "is_int (PInt i) = True"
| "is_int (PBool b) = True"
| "is_int v = False"

fun nat_digits :: "nat \<Rightarrow> string" where
  "nat_digits n =
     (if n < 10 then [''0123456789'' ! n]
      else nat_digits (n div 10) @ [''0123456789'' ! (n mod 10)])"

declare nat_digits.simps [simp del]

definition int_str :: "int \<Rightarrow> string" where
  "int_str i = (if i < 0 then CHR ''-'' # nat_digits (nat (- i)) else nat_digits (nat i))"

definition py_str :: "env \<Rightarrow> pyval \<Rightarrow> string" where
  "py_str E v =
     (case v of
        PStr s \<Rightarrow> s
      | PNone \<Rightarrow> ''None''
      | PBool b \<Rightarrow> (if b then ''True'' else ''False'')
      | PInt i \<Rightarrow> int_str i
      | _ \<Rightarrow> builtin_str E v)"

definition upper_char :: "char \<Rightarrow> char" where
  "upper_char c =
     (case map_of (zip ''abcdefghijklmnopqrstuvwxyz'' ''ABCDEFGHIJKLMNOPQRSTUVWXYZ'') c of
        Some u \<Rightarrow> u
      | None \<Rightarrow> c)"

definition upper :: "string \<Rightarrow> string" where
  "upper s = map upper_char s"

definition py_dict :: "env \<Rightarrow> pyval \<Rightarrow> error + (pyval \<times> pyval) list" where
  "py_dict E v =
     (case v of PDict d \<Rightarrow> Inr d | PHeaders d \<Rightarrow> Inr d | _ \<Rightarrow> builtin_dict E v)"

definition py_list :: "env \<Rightarrow> pyval \<Rightarrow> error + pyval list" where
  "py_list E v = (case v of PList xs \<Rightarrow> Inr xs | _ \<Rightarrow> builtin_list E v)"

text \<open>\<^verbatim>\<open>s.startswith(p)\<close> and \<^verbatim>\<open>sub in s\<close> on strings.\<close>

definition startswith :: "string \<Rightarrow> string \<Rightarrow> bool" where
  "startswith s p = (take (length p) s = p)"

fun contains_str :: "string \<Rightarrow> string \<Rightarrow> bool" where
  "contains_str sub [] = (sub = [])"
| "contains_str sub (c # cs) = (startswith (c # cs) sub \<or> contains_str sub cs)"

subsection \<open>Dictionaries with string keys\<close>

text \<open>
  A keyword-argument dictionary is an association list in insertion order with no key
  twice. \<^verbatim>\<open>d.setdefault(k, v)\<close> adds the entry only when the key is absent;
  \<^verbatim>\<open>d[k] = v\<close> replaces the value in place or appends; \<^verbatim>\<open>d.update(other)\<close> does
  \<^verbatim>\<open>d[k] = v\<close> for every entry of \<^verbatim>\<open>other\<close> in order.
\<close>

definition setdefault :: "kwargs \<Rightarrow> string \<Rightarrow> pyval \<Rightarrow> kwargs" where
  "setdefault d k v = (case map_of d k of None \<Rightarrow> d @ [(k, v)] | Some w \<Rightarrow> d)"

fun dict_set :: "kwargs \<Rightarrow> string \<Rightarrow> pyval \<Rightarrow> kwargs" where
  "dict_set [] k v = [(k, v)]"
| "dict_set (p # ps) k v = (if fst p = k then (k, v) # ps else p # dict_set ps k v)"

fun dict_update :: "kwargs \<Rightarrow> kwargs \<Rightarrow> kwargs" where
  "dict_update d [] = d"
| "dict_update d (p # ps) = dict_update (dict_set d (fst p) (snd p)) ps"

definition kwarg :: "kwargs \<Rightarrow> string \<Rightarrow> pyval \<Rightarrow> pyval" where
  "kwarg d k dflt = (case map_of d k of None \<Rightarrow> dflt | Some v \<Rightarrow> v)"

section \<open>The Request class\<close>

text \<open>
  \<^verbatim>\<open>NO_CALLBACK\<close> is a module-level function (it raises \<^verbatim>\<open>RuntimeError\<close> when called);
  as a value it is a plain function object, here the one numbered 0.
\<close>

definition NO_CALLBACK :: pyval where
  "NO_CALLBACK = PFunction 0"

text \<open>
  The instance attributes that \<^verbatim>\<open>__init__\<close> assigns: \<^verbatim>\<open>self._encoding\<close>,
  \<^verbatim>\<open>self.method\<close>, \<^verbatim>\<open>self._url\<close>, \<^verbatim>\<open>self._body\<close>, \<^verbatim>\<open>self.priority\<close>,
  \<^verbatim>\<open>self.callback\<close>, \<^verbatim>\<open>self.errback\<close>, \<^verbatim>\<open>self.cookies\<close>, \<^verbatim>\<open>self.headers\<close>,
  \<^verbatim>\<open>self.dont_filter\<close>, \<^verbatim>\<open>self._meta\<close>, \<^verbatim>\<open>self._cb_kwargs\<close>, \<^verbatim>\<open>self.flags\<close>.
  The two private slots \<^verbatim>\<open>_meta\<close> and \<^verbatim>\<open>_cb_kwargs\<close> are \<^verbatim>\<open>None\<close> or a dictionary.
  The model covers instances of \<^verbatim>\<open>Request\<close> itself: the source holds no subclass.
\<close>

record request =
  self_encoding :: pyval
  self_method :: string
  self_url :: string
  self_body :: "8 word list"
  self_priority :: pyval
  self_callback :: pyval
  self_errback :: pyval
  self_cookies :: pyval
  self_headers :: "(pyval \<times> pyval) list"
  self_dont_filter :: pyval
  self_meta :: "(pyval \<times> pyval) list option"
  self_cb_kwargs :: "(pyval \<times> pyval) list option"
  self_flags :: "pyval list"

text \<open>The class attribute \<^verbatim>\<open>attributes\<close>, a tuple of thirteen names.\<close>

datatype attr =
    A_url | A_callback | A_method | A_headers | A_body | A_cookies | A_meta
  | A_encoding | A_priority | A_dont_filter | A_errback | A_flags | A_cb_kwargs

fun attr_name :: "attr \<Rightarrow> string" where
  "attr_name A_url = ''url''"
| "attr_name A_callback = ''callback''"
| "attr_name A_method = ''method''"
| "attr_name A_headers = ''headers''"
| "attr_name A_body = ''body''"
| "attr_name A_cookies = ''cookies''"
| "attr_name A_meta = ''meta''"
| "attr_name A_encoding = ''encoding''"
| "attr_name A_priority = ''priority''"
| "attr_name A_dont_filter = ''dont_filter''"
| "attr_name A_errback = ''errback''"
| "attr_name A_flags = ''flags''"
| "attr_name A_cb_kwargs = ''cb_kwargs''"

definition attributes :: "attr list" where
  "attributes =
     [A_url, A_callback, A_method, A_headers, A_body, A_cookies, A_meta,
      A_encoding, A_priority, A_dont_filter, A_errback, A_flags, A_cb_kwargs]"

subsection \<open>Construction\<close>

text \<open>
  \<^verbatim>\<open>_set_url\<close> (lines 148 to 160): the type check, the two normalisation passes, the
  scheme check. The result is the value stored in \<^verbatim>\<open>self._url\<close>.
\<close>

definition set_url :: "env \<Rightarrow> pyval \<Rightarrow> pyval \<Rightarrow> error + string" where
  "set_url E encoding url =
     (case url of
        PStr u \<Rightarrow>
          (case safe_url_string E u encoding of
             Inl e \<Rightarrow> Inl e
           | Inr s \<Rightarrow>
               (case escape_ajax E s of
                  Inl e \<Rightarrow> Inl e
                | Inr u' \<Rightarrow>
                    if \<not> contains_str ''://'' u' \<and> \<not> startswith u' ''about:''
                       \<and> \<not> startswith u' ''data:''
                    then Inl (ValueError_missing_scheme u')
                    else Inr u'))
      | _ \<Rightarrow> Inl (TypeError_url url))"

text \<open>
  Modelled from the spec: the helper \<^verbatim>\<open>scrapy.utils.python.to_bytes\<close>, which the module
  imports and whose source is not at hand. The specification says of the body that a
  bytes input is stored as those bytes and that a string input is encoded using the
  request's encoding; any other input is refused with a type error.
\<close>

definition to_bytes :: "env \<Rightarrow> pyval \<Rightarrow> pyval \<Rightarrow> error + 8 word list" where
  "to_bytes E text_in encoding =
     (case text_in of
        PBytes b \<Rightarrow> Inr b
      | PStr s \<Rightarrow> str_encode E s encoding
      | _ \<Rightarrow> Inl (TypeError_to_bytes text_in))"

text \<open>\<^verbatim>\<open>_set_body\<close> (lines 167 and 168).\<close>

definition set_body :: "env \<Rightarrow> pyval \<Rightarrow> pyval \<Rightarrow> error + 8 word list" where
  "set_body E encoding body =
     (if body = PNone then Inr [] else to_bytes E body encoding)"

text \<open>
  \<^verbatim>\<open>dict(x) if x else None\<close>, the expression stored in \<^verbatim>\<open>_meta\<close> and \<^verbatim>\<open>_cb_kwargs\<close>.
\<close>

definition dict_or_None :: "env \<Rightarrow> pyval \<Rightarrow> error + (pyval \<times> pyval) list option" where
  "dict_or_None E x =
     (if py_truthy x
      then (case py_dict E x of Inl e \<Rightarrow> Inl e | Inr d \<Rightarrow> Inr (Some d))
      else Inr None)"

text \<open>
  \<^verbatim>\<open>Request.__init__\<close> (lines 90 to 131), statement by statement. The parameters are in
  the order of the signature.
\<close>

definition Request_init ::
  "env \<Rightarrow> pyval \<Rightarrow> pyval \<Rightarrow> pyval \<Rightarrow> pyval \<Rightarrow> pyval \<Rightarrow> pyval \<Rightarrow> pyval \<Rightarrow> pyval \<Rightarrow> pyval
     \<Rightarrow> pyval \<Rightarrow> pyval \<Rightarrow> pyval \<Rightarrow> pyval \<Rightarrow> error + request" where
  "Request_init E url callback method_in headers body cookies meta encoding priority
       dont_filter errback flags cb_kwargs =
     (case set_url E encoding url of
        Inl e \<Rightarrow> Inl e
      | Inr u \<Rightarrow>
     (case set_body E encoding body of
        Inl e \<Rightarrow> Inl e
      | Inr b \<Rightarrow>
     if \<not> is_int priority then Inl (TypeError_priority priority)
     else if \<not> (is_callable callback \<or> callback = PNone) then Inl (TypeError_callback callback)
     else if \<not> (is_callable errback \<or> errback = PNone) then Inl (TypeError_errback errback)
     else
     (case Headers E (py_or headers (PDict [])) encoding of
        Inl e \<Rightarrow> Inl e
      | Inr h \<Rightarrow>
     (case dict_or_None E meta of
        Inl e \<Rightarrow> Inl e
      | Inr m \<Rightarrow>
     (case dict_or_None E cb_kwargs of
        Inl e \<Rightarrow> Inl e
      | Inr k \<Rightarrow>
     (case (if flags = PNone then Inr [] else py_list E flags) of
        Inl e \<Rightarrow> Inl e
      | Inr fl \<Rightarrow>
          Inr \<lparr> self_encoding = encoding,
                self_method = upper (py_str E method_in),
                self_url = u,
                self_body = b,
                self_priority = priority,
                self_callback = callback,
                self_errback = errback,
                self_cookies = py_or cookies (PDict []),
                self_headers = h,
                self_dont_filter = dont_filter,
                self_meta = m,
                self_cb_kwargs = k,
                self_flags = fl \<rparr>))))))"

text \<open>
  The call \<^verbatim>\<open>cls(**kwargs)\<close> with \<^verbatim>\<open>cls\<close> the class \<^verbatim>\<open>Request\<close>: a keyword that is not
  a parameter is a \<^verbatim>\<open>TypeError\<close>, a missing \<^verbatim>\<open>url\<close> is a \<^verbatim>\<open>TypeError\<close>, every other
  parameter has the default of the signature.
\<close>

definition parameter_names :: "string list" where
  "parameter_names =
     [''url'', ''callback'', ''method'', ''headers'', ''body'', ''cookies'', ''meta'',
      ''encoding'', ''priority'', ''dont_filter'', ''errback'', ''flags'', ''cb_kwargs'']"

definition call_Request :: "env \<Rightarrow> kwargs \<Rightarrow> error + request" where
  "call_Request E kw =
     (case filter (\<lambda>p. fst p \<notin> set parameter_names) kw of
        p # ps \<Rightarrow> Inl (TypeError_unexpected_keyword (fst p))
      | [] \<Rightarrow>
          (case map_of kw ''url'' of
             None \<Rightarrow> Inl TypeError_missing_url
           | Some url \<Rightarrow>
               Request_init E url
                 (kwarg kw ''callback'' PNone)
                 (kwarg kw ''method'' (PStr ''GET''))
                 (kwarg kw ''headers'' PNone)
                 (kwarg kw ''body'' PNone)
                 (kwarg kw ''cookies'' PNone)
                 (kwarg kw ''meta'' PNone)
                 (kwarg kw ''encoding'' (PStr ''utf-8''))
                 (kwarg kw ''priority'' (PInt 0))
                 (kwarg kw ''dont_filter'' (PBool False))
                 (kwarg kw ''errback'' PNone)
                 (kwarg kw ''flags'' PNone)
                 (kwarg kw ''cb_kwargs'' PNone)))"

subsection \<open>Accessors\<close>

text \<open>
  The properties \<^verbatim>\<open>cb_kwargs\<close> and \<^verbatim>\<open>meta\<close> (lines 133 to 143) assign the slot on
  first access, so an accessor returns the value and the updated object.
\<close>

definition cb_kwargs :: "request \<Rightarrow> (pyval \<times> pyval) list \<times> request" where
  "cb_kwargs s =
     (case self_cb_kwargs s of
        None \<Rightarrow> ([], s\<lparr>self_cb_kwargs := Some []\<rparr>)
      | Some d \<Rightarrow> (d, s))"

definition meta :: "request \<Rightarrow> (pyval \<times> pyval) list \<times> request" where
  "meta s =
     (case self_meta s of
        None \<Rightarrow> ([], s\<lparr>self_meta := Some []\<rparr>)
      | Some d \<Rightarrow> (d, s))"

text \<open>\<^verbatim>\<open>getattr(self, x)\<close> for the names of \<^verbatim>\<open>attributes\<close>.\<close>

fun getattr :: "request \<Rightarrow> attr \<Rightarrow> pyval \<times> request" where
  "getattr s A_url = (PStr (self_url s), s)"
| "getattr s A_callback = (self_callback s, s)"
| "getattr s A_method = (PStr (self_method s), s)"
| "getattr s A_headers = (PHeaders (self_headers s), s)"
| "getattr s A_body = (PBytes (self_body s), s)"
| "getattr s A_cookies = (self_cookies s, s)"
| "getattr s A_meta = (case meta s of (d, s') \<Rightarrow> (PDict d, s'))"
| "getattr s A_encoding = (self_encoding s, s)"
| "getattr s A_priority = (self_priority s, s)"
| "getattr s A_dont_filter = (self_dont_filter s, s)"
| "getattr s A_errback = (self_errback s, s)"
| "getattr s A_flags = (PList (self_flags s), s)"
| "getattr s A_cb_kwargs = (case cb_kwargs s of (d, s') \<Rightarrow> (PDict d, s'))"

subsection \<open>replace, copy, from\_curl\<close>

text \<open>
  The loop \<^verbatim>\<open>for x in self.attributes: d.setdefault(x, getattr(self, x))\<close>, which
  \<^verbatim>\<open>replace\<close> (lines 184 and 185) and \<^verbatim>\<open>to_dict\<close> (lines 245 and 246) both run. The
  argument of \<^verbatim>\<open>setdefault\<close> is evaluated whether or not the key is present, so the
  accessors of \<^verbatim>\<open>meta\<close> and \<^verbatim>\<open>cb_kwargs\<close> always run.
\<close>

fun setdefault_attributes :: "attr list \<Rightarrow> kwargs \<Rightarrow> request \<Rightarrow> kwargs \<times> request" where
  "setdefault_attributes [] d s = (d, s)"
| "setdefault_attributes (x # xs) d s =
     (case getattr s x of
        (v, s') \<Rightarrow> setdefault_attributes xs (setdefault d (attr_name x) v) s')"

text \<open>
  \<^verbatim>\<open>replace\<close> (lines 182 to 187) on an instance of \<^verbatim>\<open>Request\<close>; the result is the value
  returned or the exception, and the receiver after the call. After the loop
  \<^verbatim>\<open>kwargs\<close> holds every parameter, so a positional argument collides with \<^verbatim>\<open>url\<close>.
  A caller that passes \<^verbatim>\<open>cls\<close> asks for another class, which is outside the model.
\<close>

definition replace ::
  "env \<Rightarrow> request \<Rightarrow> pyval list \<Rightarrow> kwargs \<Rightarrow> (error + request) \<times> request" where
  "replace E s args kw =
     (case setdefault_attributes attributes kw s of
        (kw', s') \<Rightarrow>
          if map_of kw' ''cls'' \<noteq> None then (Inl Unsupported_cls, s')
          else if args \<noteq> [] then (Inl TypeError_positional, s')
          else (call_Request E kw', s'))"

definition copy :: "env \<Rightarrow> request \<Rightarrow> (error + request) \<times> request" where
  "copy E s = replace E s [] []"

text \<open>\<^verbatim>\<open>from_curl\<close> (lines 223 to 225), called on the class \<^verbatim>\<open>Request\<close>.\<close>

definition from_curl :: "env \<Rightarrow> string \<Rightarrow> pyval \<Rightarrow> kwargs \<Rightarrow> error + request" where
  "from_curl E curl_command ignore_unknown_options kw =
     (case curl_to_request_kwargs E curl_command ignore_unknown_options of
        Inl e \<Rightarrow> Inl e
      | Inr request_kwargs \<Rightarrow> call_Request E (dict_update request_kwargs kw))"

subsection \<open>Object identity\<close>

text \<open>
  Objects live in a store, a list of requests; a reference is an index, and the
  constructor puts the new object at the end. \<^verbatim>\<open>a is b\<close> is equality of references.
  \<^verbatim>\<open>replace_ref\<close> and \<^verbatim>\<open>copy_ref\<close> are the methods \<^verbatim>\<open>replace\<close> and \<^verbatim>\<open>copy\<close> called
  through a reference \<open>a\<close> to the receiver: the receiver is updated in place (its slots
  may have been filled) and the result is put at the end. Python has no dangling
  reference, so the receiver is always in the store, \<open>a < length h\<close>; the statements
  about these functions assume it.
\<close>

type_synonym store = "request list"

definition new_Request :: "env \<Rightarrow> store \<Rightarrow> kwargs \<Rightarrow> (error + nat) \<times> store" where
  "new_Request E h kw =
     (case call_Request E kw of
        Inl e \<Rightarrow> (Inl e, h)
      | Inr r \<Rightarrow> (Inr (length h), h @ [r]))"



subsection \<open>Serialisation\<close>

text \<open>
  The loop of \<^verbatim>\<open>_find_method\<close> (lines 257 to 264): the name of the first member whose
  \<^verbatim>\<open>__func__\<close> is the function sought.
\<close>

fun scan_members :: "(string \<times> nat) list \<Rightarrow> nat \<Rightarrow> string option" where
  "scan_members [] f = None"
| "scan_members (m # ms) f = (if snd m = f then Some (fst m) else scan_members ms f)"

text \<open>
  \<^verbatim>\<open>_find_method\<close> (lines 252 to 265). The guard \<^verbatim>\<open>obj and hasattr(func, "__func__")\<close>
  holds when the object is not \<^verbatim>\<open>None\<close>, is truthy, and the function is a bound method
  (only bound methods have \<^verbatim>\<open>__func__\<close>); every other path reaches the final \<^verbatim>\<open>raise\<close>.
\<close>

definition find_method :: "spider option \<Rightarrow> pyval \<Rightarrow> error + string" where
  "find_method obj func =
     (case obj of
        None \<Rightarrow> Inl (ValueError_find_method func obj)
      | Some sp \<Rightarrow>
          (case func of
             PMethod f slf \<Rightarrow>
               if sp_truthy sp
               then (case scan_members (sp_members sp) f of
                       Some name \<Rightarrow> Inr name
                     | None \<Rightarrow> Inl (ValueError_find_method func obj))
               else Inl (ValueError_find_method func obj)
           | _ \<Rightarrow> Inl (ValueError_find_method func obj)))"

text \<open>
  The expression \<^verbatim>\<open>_find_method(spider, f) if callable(f) else f\<close> of the dictionary
  display in \<^verbatim>\<open>to_dict\<close>.
\<close>

definition resolve :: "spider option \<Rightarrow> pyval \<Rightarrow> error + pyval" where
  "resolve spider_arg f =
     (if is_callable f
      then (case find_method spider_arg f of Inl e \<Rightarrow> Inl e | Inr name \<Rightarrow> Inr (PStr name))
      else Inr f)"

text \<open>
  \<^verbatim>\<open>to_dict\<close> (lines 227 to 249) on an instance of \<^verbatim>\<open>Request\<close> itself, for which
  \<^verbatim>\<open>type(self) is not Request\<close> is false and no \<^verbatim>\<open>_class\<close> entry is written. The
  entries of the display are evaluated in order, the callback before the errback; an
  exception there leaves the receiver as it was.
\<close>

definition to_dict :: "spider option \<Rightarrow> request \<Rightarrow> (error + kwargs) \<times> request" where
  "to_dict spider_arg s =
     (case resolve spider_arg (self_callback s) of
        Inl e \<Rightarrow> (Inl e, s)
      | Inr cb \<Rightarrow>
          (case resolve spider_arg (self_errback s) of
             Inl e \<Rightarrow> (Inl e, s)
           | Inr eb \<Rightarrow>
               (case setdefault_attributes attributes
                       [(''url'', PStr (self_url s)), (''callback'', cb), (''errback'', eb),
                        (''headers'', PDict (self_headers s))] s of
                  (d, s') \<Rightarrow> (Inr d, s'))))"

subsection \<open>Operations on one request\<close>

text \<open>
  What the module can do to an existing request: read one of its attributes, serialise
  it, replace or copy it. \<^verbatim>\<open>perform\<close> gives the request after the operation.
\<close>

datatype operation =
    Op_getattr attr
  | Op_to_dict "spider option"
  | Op_replace "pyval list" kwargs
  | Op_copy

fun perform :: "env \<Rightarrow> operation \<Rightarrow> request \<Rightarrow> request" where
  "perform E (Op_getattr x) s = snd (getattr s x)"
| "perform E (Op_to_dict sp) s = snd (to_dict sp s)"
| "perform E (Op_replace args kw) s = snd (replace E s args kw)"
| "perform E Op_copy s = snd (copy E s)"

subsection \<open>Requests that the constructor built\<close>






section \<open>Example objects\<close>

text \<open>
  A concrete environment, used where a statement is evaluated on an input: both
  normalisation passes leave the text as it is, \<^verbatim>\<open>Headers\<close> keeps the entries of a
  dictionary, the command parser takes the text after \<^verbatim>\<open>curl\<close> and a blank as the url.
\<close>

definition example_env :: env where
  "example_env =
     \<lparr> safe_url_string = (\<lambda>u enc. Inr u),
       escape_ajax = (\<lambda>s. Inr s),
       str_encode = (\<lambda>s enc. Inr (map of_char s)),
       Headers = (\<lambda>v enc. case v of PDict d \<Rightarrow> Inr d | PHeaders d \<Rightarrow> Inr d
                                | _ \<Rightarrow> Inl (External ''Headers'')),
       curl_to_request_kwargs =
         (\<lambda>c ign. Inr [(''method'', PStr ''GET''), (''url'', PStr (drop 5 c))]),
       builtin_dict = (\<lambda>v. Inl (External ''dict'')),
       builtin_list = (\<lambda>v. Inl (External ''list'')),
       builtin_str = (\<lambda>v. ''object'') \<rparr>"

text \<open>
  The object that \<^verbatim>\<open>Request("http://example.com/", callback=cb, errback=eb)\<close> builds
  in that environment.
\<close>

definition example_request :: "pyval \<Rightarrow> pyval \<Rightarrow> request" where
  "example_request cb eb =
     \<lparr> self_encoding = PStr ''utf-8'',
       self_method = ''GET'',
       self_url = ''http://example.com/'',
       self_body = [],
       self_priority = PInt 0,
       self_callback = cb,
       self_errback = eb,
       self_cookies = PDict [],
       self_headers = [],
       self_dont_filter = PBool False,
       self_meta = None,
       self_cb_kwargs = None,
       self_flags = [] \<rparr>"

text \<open>
  A spider with four bound methods, two of them (\<^verbatim>\<open>parse\<close> and \<^verbatim>\<open>start\<close>) from the same
  function; the argument is its truth value.
\<close>

definition example_spider :: "bool \<Rightarrow> spider" where
  "example_spider t =
     \<lparr> sp_id = 1, sp_truthy = t,
       sp_members = [(''closed'', 3), (''parse'', 5), (''parse_item'', 6), (''start'', 5)] \<rparr>"

section \<open>Basic facts\<close>



lemma setdefault_keeps:
  "map_of d k = Some v \<Longrightarrow> map_of (setdefault d k' v') k = Some v"
  by (auto simp: setdefault_def split: option.splits)

lemma setdefault_attributes_keeps:
  "map_of d k = Some v \<Longrightarrow> map_of (fst (setdefault_attributes xs d s)) k = Some v"
proof (induction xs arbitrary: d s)
  case Nil
  then show ?case by simp
next
  case (Cons x xs)
  obtain w s' where g: "getattr s x = (w, s')" by (cases "getattr s x")
  from Cons.prems have "map_of (setdefault d (attr_name x) w) k = Some v"
    by (rule setdefault_keeps)
  from Cons.IH [OF this] g show ?case by simp
qed

lemma find_method_None: "find_method None f = Inl (ValueError_find_method f None)"
  by (simp add: find_method_def)

lemma to_dict_entries:
  assumes "resolve sp (self_callback s) = Inr cb" and "resolve sp (self_errback s) = Inr eb"
  shows "\<exists>d. fst (to_dict sp s) = Inr d \<and> map_of d ''callback'' = Some cb
           \<and> map_of d ''errback'' = Some eb"
proof -
  let ?d0 = "[(''url'', PStr (self_url s)), (''callback'', cb), (''errback'', eb),
              (''headers'', PDict (self_headers s))]"
  obtain d s' where r: "setdefault_attributes attributes ?d0 s = (d, s')"
    by (cases "setdefault_attributes attributes ?d0 s")
  have "map_of ?d0 ''callback'' = Some cb" and "map_of ?d0 ''errback'' = Some eb" by simp_all
  then have "map_of (fst (setdefault_attributes attributes ?d0 s)) ''callback'' = Some cb"
    and "map_of (fst (setdefault_attributes attributes ?d0 s)) ''errback'' = Some eb"
    by (simp_all add: setdefault_attributes_keeps)
  with r assms show ?thesis by (simp add: to_dict_def)
qed

lemma example_request_constructed:
  "(is_callable cb \<or> cb = PNone) \<Longrightarrow> (is_callable eb \<or> eb = PNone) \<Longrightarrow>
   Request_init example_env (PStr ''http://example.com/'') cb (PStr ''get'') PNone PNone
     PNone PNone (PStr ''utf-8'') (PInt 0) (PBool False) eb PNone PNone
   = Inr (example_request cb eb)"
  by (simp add: Request_init_def set_url_def set_body_def example_env_def example_request_def
      startswith_def py_or_def dict_or_None_def py_str_def upper_def upper_char_def)

lemma Request_init_Inr:
  assumes "Request_init E url cb m h b c mt enc p df eb fl ck = Inr r"
  shows "set_url E enc url = Inr (self_url r)"
    and "set_body E enc b = Inr (self_body r)"
    and "is_int p"
    and "is_callable cb \<or> cb = PNone"
    and "is_callable eb \<or> eb = PNone"
    and "Headers E (py_or h (PDict [])) enc = Inr (self_headers r)"
    and "dict_or_None E mt = Inr (self_meta r)"
    and "dict_or_None E ck = Inr (self_cb_kwargs r)"
    and "(if fl = PNone then Inr [] else py_list E fl) = Inr (self_flags r)"
    and "self_encoding r = enc"
    and "self_method r = upper (py_str E m)"
    and "self_priority r = p"
    and "self_callback r = cb"
    and "self_errback r = eb"
    and "self_cookies r = py_or c (PDict [])"
    and "self_dont_filter r = df"
  using assms unfolding Request_init_def
  by (auto split: sum.splits if_splits)

lemma Request_init_eq:
  assumes "set_url E enc url = Inr u"
    and "set_body E enc b = Inr bd"
    and "is_int p"
    and "is_callable cb \<or> cb = PNone"
    and "is_callable eb \<or> eb = PNone"
    and "Headers E (py_or h (PDict [])) enc = Inr hs"
    and "dict_or_None E mt = Inr m'"
    and "dict_or_None E ck = Inr k'"
    and "(if fl = PNone then Inr [] else py_list E fl) = Inr fl'"
  shows "Request_init E url cb m h b c mt enc p df eb fl ck =
     Inr \<lparr> self_encoding = enc, self_method = upper (py_str E m), self_url = u,
           self_body = bd, self_priority = p, self_callback = cb, self_errback = eb,
           self_cookies = py_or c (PDict []), self_headers = hs, self_dont_filter = df,
           self_meta = m', self_cb_kwargs = k', self_flags = fl' \<rparr>"
  using assms unfolding Request_init_def by auto

lemma scan_members_None: "scan_members ms f = None \<longleftrightarrow> f \<notin> snd ` set ms"
  by (induction ms) auto

lemma scan_members_Some:
  "scan_members ms f = Some name \<longleftrightarrow>
     (\<exists>pre post. ms = pre @ (name, f) # post \<and> f \<notin> snd ` set pre)"
proof (induction ms)
  case Nil
  then show ?case by simp
next
  case (Cons m ms)
  show ?case
  proof (cases "snd m = f")
    case True
    have "(fst m = name) \<longleftrightarrow> (\<exists>pre post. m # ms = pre @ (name, f) # post \<and> f \<notin> snd ` set pre)"
    proof
      assume "fst m = name"
      with True have "m # ms = [] @ (name, f) # ms \<and> f \<notin> snd ` set []" by auto
      then show "\<exists>pre post. m # ms = pre @ (name, f) # post \<and> f \<notin> snd ` set pre" by blast
    next
      assume "\<exists>pre post. m # ms = pre @ (name, f) # post \<and> f \<notin> snd ` set pre"
      then obtain pre post where e: "m # ms = pre @ (name, f) # post" and n: "f \<notin> snd ` set pre"
        by blast
      show "fst m = name"
      proof (cases pre)
        case Nil
        with e show ?thesis by auto
      next
        case (Cons q qs)
        with e have "q = m" by simp
        with Cons n True show ?thesis by auto
      qed
    qed
    with True show ?thesis by simp
  next
    case False
    have "(\<exists>pre post. ms = pre @ (name, f) # post \<and> f \<notin> snd ` set pre)
        \<longleftrightarrow> (\<exists>pre post. m # ms = pre @ (name, f) # post \<and> f \<notin> snd ` set pre)"
    proof
      assume "\<exists>pre post. ms = pre @ (name, f) # post \<and> f \<notin> snd ` set pre"
      then obtain pre post where "ms = pre @ (name, f) # post" and "f \<notin> snd ` set pre" by blast
      with False have "m # ms = (m # pre) @ (name, f) # post \<and> f \<notin> snd ` set (m # pre)" by auto
      then show "\<exists>pre post. m # ms = pre @ (name, f) # post \<and> f \<notin> snd ` set pre" by blast
    next
      assume "\<exists>pre post. m # ms = pre @ (name, f) # post \<and> f \<notin> snd ` set pre"
      then obtain pre post where e: "m # ms = pre @ (name, f) # post" and n: "f \<notin> snd ` set pre"
        by blast
      show "\<exists>pre post. ms = pre @ (name, f) # post \<and> f \<notin> snd ` set pre"
      proof (cases pre)
        case Nil
        with e False show ?thesis by auto
      next
        case (Cons q qs)
        with e n have "ms = qs @ (name, f) # post \<and> f \<notin> snd ` set qs" by auto
        then show ?thesis by blast
      qed
    qed
    with False Cons.IH show ?thesis by simp
  qed
qed

lemma startswith_iff: "startswith s p \<longleftrightarrow> (\<exists>post. s = p @ post)"
proof
  assume "startswith s p"
  then have "s = p @ drop (length p) s"
    by (metis append_take_drop_id startswith_def)
  then show "\<exists>post. s = p @ post" ..
next
  assume "\<exists>post. s = p @ post"
  then show "startswith s p" by (auto simp: startswith_def)
qed

lemma contains_str_iff: "contains_str sub s \<longleftrightarrow> (\<exists>pre post. s = pre @ sub @ post)"
proof (induction s)
  case Nil
  then show ?case by auto
next
  case (Cons c cs)
  show ?case
  proof
    assume "contains_str sub (c # cs)"
    then consider "startswith (c # cs) sub" | "contains_str sub cs" by auto
    then show "\<exists>pre post. c # cs = pre @ sub @ post"
    proof cases
      case 1
      then obtain post where "c # cs = [] @ sub @ post" by (auto simp: startswith_iff)
      then show ?thesis by blast
    next
      case 2
      with Cons.IH obtain pre post where "cs = pre @ sub @ post" by blast
      then have "c # cs = (c # pre) @ sub @ post" by simp
      then show ?thesis by blast
    qed
  next
    assume "\<exists>pre post. c # cs = pre @ sub @ post"
    then obtain pre post where e: "c # cs = pre @ sub @ post" by blast
    show "contains_str sub (c # cs)"
    proof (cases pre)
      case Nil
      with e have "startswith (c # cs) sub" by (auto simp: startswith_iff)
      then show ?thesis by simp
    next
      case (Cons q qs)
      with e have "cs = qs @ sub @ post" by simp
      with Cons.IH have "contains_str sub cs" by blast
      then show ?thesis by simp
    qed
  qed
qed




lemma example_set_url:
  "set_url example_env enc (PStr u) =
     (if \<not> contains_str ''://'' u \<and> \<not> startswith u ''about:'' \<and> \<not> startswith u ''data:''
      then Inl (ValueError_missing_scheme u) else Inr u)"
  by (simp add: set_url_def example_env_def)

lemma example_request_init:
  assumes "set_url example_env (PStr ''utf-8'') url = Inr u"
    and "is_callable cb \<or> cb = PNone" and "is_callable eb \<or> eb = PNone"
  shows "Request_init example_env url cb m PNone PNone PNone PNone (PStr ''utf-8'') (PInt 0)
           (PBool False) eb PNone PNone
         = Inr ((example_request cb eb)
                 \<lparr>self_url := u, self_method := upper (py_str example_env m)\<rparr>)"
proof -
  have "Request_init example_env url cb m PNone PNone PNone PNone (PStr ''utf-8'') (PInt 0)
           (PBool False) eb PNone PNone
     = Inr \<lparr> self_encoding = PStr ''utf-8'', self_method = upper (py_str example_env m),
           self_url = u, self_body = [], self_priority = PInt 0, self_callback = cb,
           self_errback = eb, self_cookies = py_or PNone (PDict []), self_headers = [],
           self_dont_filter = PBool False, self_meta = None, self_cb_kwargs = None,
           self_flags = [] \<rparr>"
    using assms
    by (intro Request_init_eq) (simp_all add: set_body_def dict_or_None_def py_or_def example_env_def)
  then show ?thesis by (simp add: example_request_def py_or_def)
qed

lemma set_body_Inr:
  assumes "set_body E enc body = Inr bd"
  shows "body = PNone \<or> (\<exists>bs. body = PBytes bs) \<or> (\<exists>s. body = PStr s)"
    and "body = PNone \<Longrightarrow> bd = []"
    and "body = PBytes bs \<Longrightarrow> bd = bs"
    and "body = PStr s \<Longrightarrow> str_encode E s enc = Inr bd"
  using assms by (cases body; simp add: set_body_def to_bytes_def)+

lemma call_Request_Inr:
  assumes "call_Request E kw = Inr r"
  shows "\<exists>url. map_of kw ''url'' = Some url \<and>
           Request_init E url
                 (kwarg kw ''callback'' PNone)
                 (kwarg kw ''method'' (PStr ''GET''))
                 (kwarg kw ''headers'' PNone)
                 (kwarg kw ''body'' PNone)
                 (kwarg kw ''cookies'' PNone)
                 (kwarg kw ''meta'' PNone)
                 (kwarg kw ''encoding'' (PStr ''utf-8''))
                 (kwarg kw ''priority'' (PInt 0))
                 (kwarg kw ''dont_filter'' (PBool False))
                 (kwarg kw ''errback'' PNone)
                 (kwarg kw ''flags'' PNone)
                 (kwarg kw ''cb_kwargs'' PNone) = Inr r"
proof -
  from assms have f: "filter (\<lambda>p. fst p \<notin> set parameter_names) kw = []"
    by (cases "filter (\<lambda>p. fst p \<notin> set parameter_names) kw") (simp_all add: call_Request_def)
  with assms obtain url where u: "map_of kw ''url'' = Some url"
    by (cases "map_of kw ''url''") (simp_all add: call_Request_def)
  with assms f show ?thesis by (simp add: call_Request_def)
qed

lemma example_request_init_body:
  assumes "set_url example_env (PStr ''utf-8'') url = Inr u"
    and "set_body example_env (PStr ''utf-8'') body = Inr bd"
    and "is_callable cb \<or> cb = PNone" and "is_callable eb \<or> eb = PNone"
  shows "Request_init example_env url cb m PNone body PNone PNone (PStr ''utf-8'') (PInt 0)
           (PBool False) eb PNone PNone
         = Inr ((example_request cb eb)
                 \<lparr>self_url := u, self_method := upper (py_str example_env m), self_body := bd\<rparr>)"
proof -
  have "Request_init example_env url cb m PNone body PNone PNone (PStr ''utf-8'') (PInt 0)
           (PBool False) eb PNone PNone
     = Inr \<lparr> self_encoding = PStr ''utf-8'', self_method = upper (py_str example_env m),
           self_url = u, self_body = bd, self_priority = PInt 0, self_callback = cb,
           self_errback = eb, self_cookies = py_or PNone (PDict []), self_headers = [],
           self_dont_filter = PBool False, self_meta = None, self_cb_kwargs = None,
           self_flags = [] \<rparr>"
    using assms
    by (intro Request_init_eq) (simp_all add: dict_or_None_def py_or_def example_env_def)
  then show ?thesis by (simp add: example_request_def py_or_def)
qed

lemma example_url: "set_url example_env enc (PStr ''http://example.com/'') = Inr ''http://example.com/''"
  by (simp add: example_set_url startswith_def)

lemma getattr_keeps_meta:
  "self_meta s = Some d \<Longrightarrow> self_meta (snd (getattr s x)) = Some d"
  by (cases x) (simp_all add: meta_def cb_kwargs_def split: option.splits)

lemma getattr_keeps_cb_kwargs:
  "self_cb_kwargs s = Some d \<Longrightarrow> self_cb_kwargs (snd (getattr s x)) = Some d"
  by (cases x) (simp_all add: meta_def cb_kwargs_def split: option.splits)

lemma setdefault_attributes_keeps_meta:
  "self_meta s = Some d \<Longrightarrow> self_meta (snd (setdefault_attributes xs kw s)) = Some d"
proof (induction xs arbitrary: kw s)
  case Nil
  then show ?case by simp
next
  case (Cons x xs)
  obtain w s' where g: "getattr s x = (w, s')" by (cases "getattr s x")
  with Cons.prems getattr_keeps_meta [of s d x] have "self_meta s' = Some d" by simp
  from Cons.IH [OF this] g show ?case by simp
qed

lemma setdefault_attributes_keeps_cb_kwargs:
  "self_cb_kwargs s = Some d \<Longrightarrow> self_cb_kwargs (snd (setdefault_attributes xs kw s)) = Some d"
proof (induction xs arbitrary: kw s)
  case Nil
  then show ?case by simp
next
  case (Cons x xs)
  obtain w s' where g: "getattr s x = (w, s')" by (cases "getattr s x")
  with Cons.prems getattr_keeps_cb_kwargs [of s d x] have "self_cb_kwargs s' = Some d" by simp
  from Cons.IH [OF this] g show ?case by simp
qed

lemma snd_replace: "snd (replace E s args kw) = snd (setdefault_attributes attributes kw s)"
  by (simp add: replace_def split: prod.splits)

lemma snd_to_dict:
  "snd (to_dict sp s) = s \<or>
   (\<exists>d0. snd (to_dict sp s) = snd (setdefault_attributes attributes d0 s))"
proof (cases "resolve sp (self_callback s)")
  case (Inl e)
  then show ?thesis by (simp add: to_dict_def)
next
  case cb: (Inr cb)
  show ?thesis
  proof (cases "resolve sp (self_errback s)")
    case (Inl e)
    with cb show ?thesis by (simp add: to_dict_def)
  next
    case (Inr eb)
    with cb have "snd (to_dict sp s) = snd (setdefault_attributes attributes
        [(''url'', PStr (self_url s)), (''callback'', cb), (''errback'', eb),
         (''headers'', PDict (self_headers s))] s)"
      by (simp add: to_dict_def split: prod.splits)
    then show ?thesis by blast
  qed
qed

lemma perform_keeps_meta:
  assumes "self_meta s = Some d"
  shows "self_meta (perform E op s) = Some d"
proof (cases op)
  case (Op_getattr x)
  with assms show ?thesis by (simp add: getattr_keeps_meta)
next
  case (Op_to_dict sp)
  from snd_to_dict [of sp s] assms have "self_meta (snd (to_dict sp s)) = Some d"
    by (auto simp: setdefault_attributes_keeps_meta)
  with Op_to_dict show ?thesis by simp
next
  case (Op_replace args kw)
  with assms show ?thesis by (simp add: snd_replace setdefault_attributes_keeps_meta)
next
  case Op_copy
  with assms show ?thesis by (simp add: copy_def snd_replace setdefault_attributes_keeps_meta)
qed

lemma perform_keeps_cb_kwargs:
  assumes "self_cb_kwargs s = Some d"
  shows "self_cb_kwargs (perform E op s) = Some d"
proof (cases op)
  case (Op_getattr x)
  with assms show ?thesis by (simp add: getattr_keeps_cb_kwargs)
next
  case (Op_to_dict sp)
  from snd_to_dict [of sp s] assms have "self_cb_kwargs (snd (to_dict sp s)) = Some d"
    by (auto simp: setdefault_attributes_keeps_cb_kwargs)
  with Op_to_dict show ?thesis by simp
next
  case (Op_replace args kw)
  with assms show ?thesis by (simp add: snd_replace setdefault_attributes_keeps_cb_kwargs)
next
  case Op_copy
  with assms show ?thesis by (simp add: copy_def snd_replace setdefault_attributes_keeps_cb_kwargs)
qed

lemma run_keeps_meta:
  "self_meta s = Some d \<Longrightarrow> self_meta (fold (perform E) ops s) = Some d"
  by (induction ops arbitrary: s) (simp_all add: perform_keeps_meta)

lemma run_keeps_cb_kwargs:
  "self_cb_kwargs s = Some d \<Longrightarrow> self_cb_kwargs (fold (perform E) ops s) = Some d"
  by (induction ops arbitrary: s) (simp_all add: perform_keeps_cb_kwargs)

lemma getattr_meta:
  "\<exists>d. getattr s A_meta = (PDict d, s\<lparr>self_meta := Some d\<rparr>)"
  by (cases "self_meta s") (simp_all add: meta_def)

lemma getattr_cb_kwargs:
  "\<exists>d. getattr s A_cb_kwargs = (PDict d, s\<lparr>self_cb_kwargs := Some d\<rparr>)"
  by (cases "self_cb_kwargs s") (simp_all add: cb_kwargs_def)

lemma map_of_dict_set: "map_of (dict_set d k v) = (map_of d)(k \<mapsto> v)"
  by (induction d) (auto simp: fun_eq_iff)

lemma map_of_dict_update:
  "map_of (dict_update d kw) k =
     (case map_of (rev kw) k of Some v \<Rightarrow> Some v | None \<Rightarrow> map_of d k)"
proof (induction kw arbitrary: d)
  case Nil
  then show ?case by simp
next
  case (Cons p ps)
  have "map_of (dict_update d (p # ps)) k =
      (case map_of (rev ps) k of Some v \<Rightarrow> Some v
       | None \<Rightarrow> map_of (dict_set d (fst p) (snd p)) k)"
    using Cons.IH by simp
  also have "\<dots> = (case map_of (rev (p # ps)) k of Some v \<Rightarrow> Some v | None \<Rightarrow> map_of d k)"
    by (cases p) (simp add: map_of_dict_set map_add_def split: option.splits)
  finally show ?case .
qed

lemma map_of_rev_distinct:
  "distinct (map fst xs) \<Longrightarrow> map_of (rev xs) = map_of xs"
proof (induction xs)
  case Nil
  then show ?case by simp
next
  case (Cons x xs)
  then have ih: "map_of (rev xs) = map_of xs" by simp
  from Cons.prems have n: "map_of xs (fst x) = None"
    by (simp add: map_of_eq_None_iff)
  show ?case
  proof
    fix k
    show "map_of (rev (x # xs)) k = map_of (x # xs) k"
      using ih n by (cases x) (auto simp: map_add_def split: option.splits)
  qed
qed




















section \<open>Serialisation without a spider\<close>

text \<open>
  Claim C1, as the code has it. Without a spider, \<^verbatim>\<open>to_dict\<close> does not store a callable
  callback or errback: \<^verbatim>\<open>_find_method\<close> is still called, its guard \<^verbatim>\<open>obj and ...\<close> is
  false for \<^verbatim>\<open>None\<close>, and the \<^verbatim>\<open>ValueError\<close> naming the function and \<^verbatim>\<open>None\<close> is
  raised, the receiver left as it was. The callback is resolved before the errback.
  Only values that are not callable are stored unchanged under their keys.
\<close>

theorem to_dict_without_spider:
  "(is_callable (self_callback s) \<longrightarrow>
      to_dict None s = (Inl (ValueError_find_method (self_callback s) None), s))
   \<and> (\<not> is_callable (self_callback s) \<and> is_callable (self_errback s) \<longrightarrow>
      to_dict None s = (Inl (ValueError_find_method (self_errback s) None), s))
   \<and> (\<not> is_callable (self_callback s) \<and> \<not> is_callable (self_errback s) \<longrightarrow>
      (\<exists>d. fst (to_dict None s) = Inr d \<and> map_of d ''callback'' = Some (self_callback s)
           \<and> map_of d ''errback'' = Some (self_errback s)))"
proof (intro conjI impI)
  assume "is_callable (self_callback s)"
  then show "to_dict None s = (Inl (ValueError_find_method (self_callback s) None), s)"
    by (simp add: to_dict_def resolve_def find_method_None)
next
  assume "\<not> is_callable (self_callback s) \<and> is_callable (self_errback s)"
  then show "to_dict None s = (Inl (ValueError_find_method (self_errback s) None), s)"
    by (simp add: to_dict_def resolve_def find_method_None)
next
  assume "\<not> is_callable (self_callback s) \<and> \<not> is_callable (self_errback s)"
  then have "resolve None (self_callback s) = Inr (self_callback s)"
    and "resolve None (self_errback s) = Inr (self_errback s)"
    by (simp_all add: resolve_def)
  then show "\<exists>d. fst (to_dict None s) = Inr d \<and> map_of d ''callback'' = Some (self_callback s)
           \<and> map_of d ''errback'' = Some (self_errback s)"
    by (rule to_dict_entries)
qed

text \<open>The three cases at a bound method, at a function as errback, and at no callback.\<close>

theorem to_dict_without_spider_witness:
  "is_callable (self_callback (example_request (PMethod 5 1) PNone))
   \<and> to_dict None (example_request (PMethod 5 1) PNone)
       = (Inl (ValueError_find_method (PMethod 5 1) None), example_request (PMethod 5 1) PNone)
   \<and> \<not> is_callable (self_callback (example_request PNone (PFunction 7)))
   \<and> is_callable (self_errback (example_request PNone (PFunction 7)))
   \<and> to_dict None (example_request PNone (PFunction 7))
       = (Inl (ValueError_find_method (PFunction 7) None), example_request PNone (PFunction 7))
   \<and> \<not> is_callable (self_callback (example_request PNone PNone))
   \<and> \<not> is_callable (self_errback (example_request PNone PNone))
   \<and> (\<exists>d. fst (to_dict None (example_request PNone PNone)) = Inr d
          \<and> map_of d ''callback'' = Some PNone \<and> map_of d ''errback'' = Some PNone)"
  using to_dict_without_spider [of "example_request (PMethod 5 1) PNone"]
    to_dict_without_spider [of "example_request PNone (PFunction 7)"]
    to_dict_without_spider [of "example_request PNone PNone"]
  by (simp add: example_request_def)

text \<open>
  The claim as written fails on a request built by the constructor with a plain
  function as callback: \<^verbatim>\<open>to_dict()\<close> raises.
\<close>

theorem to_dict_without_spider_counterexample:
  "Request_init example_env (PStr ''http://example.com/'') (PFunction 7) (PStr ''get'') PNone PNone
     PNone PNone (PStr ''utf-8'') (PInt 0) (PBool False) PNone PNone PNone
   = Inr (example_request (PFunction 7) PNone)
   \<and> is_callable (self_callback (example_request (PFunction 7) PNone))
   \<and> fst (to_dict None (example_request (PFunction 7) PNone))
      = Inl (ValueError_find_method (PFunction 7) None)"
  by (simp add: example_request_constructed)
     (simp add: to_dict_def resolve_def find_method_def example_request_def)

section \<open>Serialisation of a bound method\<close>

text \<open>
  Claim C2, as the code has it. The callback is a bound method and a spider is
  supplied. If the spider is truthy and one of its methods has the same \<^verbatim>\<open>__func__\<close>,
  \<^verbatim>\<open>_find_method\<close> returns the name of the first such method in the order of
  \<^verbatim>\<open>inspect.getmembers\<close>, and \<^verbatim>\<open>to_dict\<close> stores that name under \<^verbatim>\<open>callback\<close> whenever
  the errback entry resolves too (when it does not, \<^verbatim>\<open>to_dict\<close> raises the errback's
  error). If the spider is falsy or none of its methods matches, \<^verbatim>\<open>to_dict\<close> raises the
  \<^verbatim>\<open>ValueError\<close> naming the callback and the spider, whatever the errback, and leaves
  the receiver as it was.
\<close>

theorem to_dict_bound_method:
  assumes "self_callback s = PMethod f slf"
  shows "(sp_truthy sp \<and> f \<in> snd ` set (sp_members sp) \<longrightarrow>
           (\<exists>name pre post.
              sp_members sp = pre @ (name, f) # post \<and> f \<notin> snd ` set pre
              \<and> find_method (Some sp) (self_callback s) = Inr name
              \<and> (\<forall>e. resolve (Some sp) (self_errback s) = Inl e \<longrightarrow>
                    to_dict (Some sp) s = (Inl e, s))
              \<and> (\<forall>eb. resolve (Some sp) (self_errback s) = Inr eb \<longrightarrow>
                    (\<exists>d. fst (to_dict (Some sp) s) = Inr d
                        \<and> map_of d ''callback'' = Some (PStr name)
                        \<and> map_of d ''errback'' = Some eb))))
       \<and> (\<not> sp_truthy sp \<or> f \<notin> snd ` set (sp_members sp) \<longrightarrow>
            to_dict (Some sp) s = (Inl (ValueError_find_method (PMethod f slf) (Some sp)), s))"
proof (intro conjI impI)
  assume a: "sp_truthy sp \<and> f \<in> snd ` set (sp_members sp)"
  then have "scan_members (sp_members sp) f \<noteq> None" by (simp add: scan_members_None)
  then obtain name where sc: "scan_members (sp_members sp) f = Some name" by blast
  then obtain pre post where sp: "sp_members sp = pre @ (name, f) # post" "f \<notin> snd ` set pre"
    unfolding scan_members_Some by blast
  from a sc assms have fm: "find_method (Some sp) (self_callback s) = Inr name"
    by (simp add: find_method_def)
  then have rc: "resolve (Some sp) (self_callback s) = Inr (PStr name)"
    using assms by (simp add: resolve_def)
  have e1: "\<forall>e. resolve (Some sp) (self_errback s) = Inl e \<longrightarrow> to_dict (Some sp) s = (Inl e, s)"
    using rc by (simp add: to_dict_def)
  have e2: "\<forall>eb. resolve (Some sp) (self_errback s) = Inr eb \<longrightarrow>
      (\<exists>d. fst (to_dict (Some sp) s) = Inr d \<and> map_of d ''callback'' = Some (PStr name)
          \<and> map_of d ''errback'' = Some eb)"
    using to_dict_entries [OF rc] by blast
  from sp fm e1 e2
  show "\<exists>name pre post.
              sp_members sp = pre @ (name, f) # post \<and> f \<notin> snd ` set pre
              \<and> find_method (Some sp) (self_callback s) = Inr name
              \<and> (\<forall>e. resolve (Some sp) (self_errback s) = Inl e \<longrightarrow>
                    to_dict (Some sp) s = (Inl e, s))
              \<and> (\<forall>eb. resolve (Some sp) (self_errback s) = Inr eb \<longrightarrow>
                    (\<exists>d. fst (to_dict (Some sp) s) = Inr d
                        \<and> map_of d ''callback'' = Some (PStr name)
                        \<and> map_of d ''errback'' = Some eb))"
    by blast
next
  assume "\<not> sp_truthy sp \<or> f \<notin> snd ` set (sp_members sp)"
  then have "find_method (Some sp) (PMethod f slf) = Inl (ValueError_find_method (PMethod f slf) (Some sp))"
    by (auto simp: find_method_def scan_members_None [symmetric])
  with assms show "to_dict (Some sp) s = (Inl (ValueError_find_method (PMethod f slf) (Some sp)), s)"
    by (simp add: to_dict_def resolve_def)
qed

text \<open>
  A truthy spider whose methods \<^verbatim>\<open>parse\<close> and \<^verbatim>\<open>start\<close> share the function 5: the
  callback resolves to \<^verbatim>\<open>parse\<close>, the first of the two; no method has the function 9.
\<close>

theorem to_dict_bound_method_witness:
  "self_callback (example_request (PMethod 5 1) PNone) = PMethod 5 1
   \<and> sp_truthy (example_spider True)
   \<and> 5 \<in> snd ` set (sp_members (example_spider True))
   \<and> resolve (Some (example_spider True)) (self_errback (example_request (PMethod 5 1) PNone)) = Inr PNone
   \<and> find_method (Some (example_spider True)) (PMethod 5 1) = Inr ''parse''
   \<and> (\<exists>d. fst (to_dict (Some (example_spider True)) (example_request (PMethod 5 1) PNone)) = Inr d
          \<and> map_of d ''callback'' = Some (PStr ''parse''))
   \<and> 9 \<notin> snd ` set (sp_members (example_spider True))
   \<and> to_dict (Some (example_spider True)) (example_request (PMethod 9 1) PNone)
       = (Inl (ValueError_find_method (PMethod 9 1) (Some (example_spider True))),
          example_request (PMethod 9 1) PNone)"
proof -
  have c: "self_callback (example_request (PMethod 5 1) PNone) = PMethod 5 1"
    and c9: "self_callback (example_request (PMethod 9 1) PNone) = PMethod 9 1"
    by (simp_all add: example_request_def)
  have t: "sp_truthy (example_spider True)"
    and m: "5 \<in> snd ` set (sp_members (example_spider True))"
    and n: "9 \<notin> snd ` set (sp_members (example_spider True))"
    by (simp_all add: example_spider_def)
  have r: "resolve (Some (example_spider True)) (self_errback (example_request (PMethod 5 1) PNone)) = Inr PNone"
    by (simp add: resolve_def example_request_def)
  have fm: "find_method (Some (example_spider True)) (PMethod 5 1) = Inr ''parse''"
    by (simp add: find_method_def example_spider_def)
  from to_dict_bound_method [OF c, of "example_spider True"] t m r fm c
  have "\<exists>d. fst (to_dict (Some (example_spider True)) (example_request (PMethod 5 1) PNone)) = Inr d
          \<and> map_of d ''callback'' = Some (PStr ''parse'')"
    by auto
  moreover from to_dict_bound_method [OF c9, of "example_spider True"] n
  have "to_dict (Some (example_spider True)) (example_request (PMethod 9 1) PNone)
       = (Inl (ValueError_find_method (PMethod 9 1) (Some (example_spider True))),
          example_request (PMethod 9 1) PNone)"
    by simp
  ultimately show ?thesis using c t m n r fm by simp
qed

text \<open>
  The claim as written fails at a spider whose truth value is false although it has
  the method, and at a request whose errback is a function that is no method of the
  spider: in both \<^verbatim>\<open>to_dict\<close> raises and the name is not stored.
\<close>

theorem to_dict_bound_method_counterexample:
  "self_callback (example_request (PMethod 5 1) PNone) = PMethod 5 1
   \<and> (''parse'', 5) \<in> set (sp_members (example_spider False))
   \<and> fst (to_dict (Some (example_spider False)) (example_request (PMethod 5 1) PNone))
       = Inl (ValueError_find_method (PMethod 5 1) (Some (example_spider False)))
   \<and> self_callback (example_request (PMethod 5 1) (PFunction 7)) = PMethod 5 1
   \<and> (''parse'', 5) \<in> set (sp_members (example_spider True))
   \<and> sp_truthy (example_spider True)
   \<and> fst (to_dict (Some (example_spider True)) (example_request (PMethod 5 1) (PFunction 7)))
       = Inl (ValueError_find_method (PFunction 7) (Some (example_spider True)))"
  by (simp add: example_request_def example_spider_def to_dict_def resolve_def find_method_def)

section \<open>Serialisation of the NO\_CALLBACK sentinel\<close>

text \<open>
  Claim C3, as the code has it. The constructor accepts \<^verbatim>\<open>NO_CALLBACK\<close> (it is
  callable) and stores it, but \<^verbatim>\<open>to_dict\<close> has no case for it: the sentinel is a
  callable without \<^verbatim>\<open>__func__\<close>, so \<^verbatim>\<open>_find_method\<close> raises the \<^verbatim>\<open>ValueError\<close> naming
  it, with any spider argument, and the request is not serialised.
\<close>

theorem no_callback_to_dict_raises:
  assumes "Request_init E url NO_CALLBACK m h b c mt enc p df eb fl ck = Inr r"
  shows "self_callback r = NO_CALLBACK
       \<and> to_dict sp r = (Inl (ValueError_find_method NO_CALLBACK sp), r)"
proof -
  have cb: "self_callback r = NO_CALLBACK" using assms by (rule Request_init_Inr)
  have "find_method sp NO_CALLBACK = Inl (ValueError_find_method NO_CALLBACK sp)"
    by (simp add: find_method_def NO_CALLBACK_def split: option.splits)
  then have "resolve sp NO_CALLBACK = Inl (ValueError_find_method NO_CALLBACK sp)"
    by (simp add: resolve_def NO_CALLBACK_def)
  with cb show ?thesis by (simp add: to_dict_def)
qed

theorem no_callback_to_dict_raises_witness:
  "Request_init example_env (PStr ''http://example.com/'') NO_CALLBACK (PStr ''get'') PNone PNone
     PNone PNone (PStr ''utf-8'') (PInt 0) (PBool False) PNone PNone PNone
   = Inr (example_request NO_CALLBACK PNone)
   \<and> self_callback (example_request NO_CALLBACK PNone) = NO_CALLBACK
   \<and> to_dict None (example_request NO_CALLBACK PNone)
       = (Inl (ValueError_find_method NO_CALLBACK None), example_request NO_CALLBACK PNone)"
proof -
  have c: "Request_init example_env (PStr ''http://example.com/'') NO_CALLBACK (PStr ''get'') PNone
     PNone PNone PNone (PStr ''utf-8'') (PInt 0) (PBool False) PNone PNone PNone
   = Inr (example_request NO_CALLBACK PNone)"
    by (rule example_request_constructed) (simp_all add: NO_CALLBACK_def)
  from no_callback_to_dict_raises [OF c, of None] c show ?thesis by simp
qed

text \<open>
  The claim as written fails at the request \<^verbatim>\<open>Request(url, callback=NO_CALLBACK)\<close>:
  \<^verbatim>\<open>to_dict\<close> raises with a spider and without one.
\<close>

theorem no_callback_to_dict_counterexample:
  "Request_init example_env (PStr ''http://example.com/'') NO_CALLBACK (PStr ''get'') PNone PNone
     PNone PNone (PStr ''utf-8'') (PInt 0) (PBool False) PNone PNone PNone
   = Inr (example_request NO_CALLBACK PNone)
   \<and> fst (to_dict (Some (example_spider True)) (example_request NO_CALLBACK PNone))
       = Inl (ValueError_find_method NO_CALLBACK (Some (example_spider True)))
   \<and> fst (to_dict None (example_request NO_CALLBACK PNone))
       = Inl (ValueError_find_method NO_CALLBACK None)"
  by (simp add: example_request_constructed NO_CALLBACK_def)
     (simp add: to_dict_def resolve_def find_method_def example_request_def)

section \<open>The scheme check of the url\<close>



section \<open>The order of the checks in the constructor\<close>




section \<open>The method is coerced, not checked\<close>



section \<open>The body is a byte sequence\<close>

text \<open>
  Claim C7. In every constructed request the body is a byte sequence, read through
  the accessor as bytes: the body input was \<^verbatim>\<open>None\<close>, bytes or a string; \<^verbatim>\<open>None\<close>
  gives the empty bytes, bytes are stored as they are, and a string is stored as its
  encoding under the encoding of the request. A call that passes no \<^verbatim>\<open>body\<close> keyword
  gives the empty bytes too.
\<close>

theorem body_is_bytes:
  "(Request_init E url cb m h body c mt enc p df eb fl ck = Inr r \<longrightarrow>
      fst (getattr r A_body) = PBytes (self_body r)
      \<and> self_encoding r = enc
      \<and> (body = PNone \<or> (\<exists>bs. body = PBytes bs) \<or> (\<exists>s. body = PStr s))
      \<and> (body = PNone \<longrightarrow> self_body r = [])
      \<and> (\<forall>bs. body = PBytes bs \<longrightarrow> self_body r = bs)
      \<and> (\<forall>s. body = PStr s \<longrightarrow> str_encode E s (self_encoding r) = Inr (self_body r)))
   \<and> (map_of kw ''body'' = None \<and> call_Request E kw = Inr r' \<longrightarrow> self_body r' = [])"
proof (intro conjI impI allI)
  assume a: "Request_init E url cb m h body c mt enc p df eb fl ck = Inr r"
  note sb = Request_init_Inr(2) [OF a]
  show "fst (getattr r A_body) = PBytes (self_body r)" by simp
  show e: "self_encoding r = enc" using a by (rule Request_init_Inr)
  show "body = PNone \<or> (\<exists>bs. body = PBytes bs) \<or> (\<exists>s. body = PStr s)"
    using sb by (rule set_body_Inr)
  { assume "body = PNone"
    with sb show "self_body r = []" by (rule set_body_Inr) }
  { fix bs assume "body = PBytes bs"
    with sb show "self_body r = bs" by (rule set_body_Inr) }
  { fix s assume "body = PStr s"
    with sb have "str_encode E s enc = Inr (self_body r)" by (rule set_body_Inr)
    with e show "str_encode E s (self_encoding r) = Inr (self_body r)" by simp }
next
  assume a: "map_of kw ''body'' = None \<and> call_Request E kw = Inr r'"
  then obtain url where
    "Request_init E url (kwarg kw ''callback'' PNone) (kwarg kw ''method'' (PStr ''GET''))
       (kwarg kw ''headers'' PNone) (kwarg kw ''body'' PNone) (kwarg kw ''cookies'' PNone)
       (kwarg kw ''meta'' PNone) (kwarg kw ''encoding'' (PStr ''utf-8''))
       (kwarg kw ''priority'' (PInt 0)) (kwarg kw ''dont_filter'' (PBool False))
       (kwarg kw ''errback'' PNone) (kwarg kw ''flags'' PNone) (kwarg kw ''cb_kwargs'' PNone)
     = Inr r'"
    using call_Request_Inr by blast
  then have "set_body E (kwarg kw ''encoding'' (PStr ''utf-8'')) (kwarg kw ''body'' PNone)
     = Inr (self_body r')"
    by (rule Request_init_Inr)
  moreover from a have "kwarg kw ''body'' PNone = PNone" by (simp add: kwarg_def)
  ultimately show "self_body r' = []" by (simp add: set_body_def)
qed

text \<open>The three kinds of input in the example environment.\<close>

theorem body_is_bytes_witness:
  "Request_init example_env (PStr ''http://example.com/'') PNone (PStr ''GET'') PNone PNone PNone
       PNone (PStr ''utf-8'') (PInt 0) (PBool False) PNone PNone PNone
     = Inr (example_request PNone PNone)
   \<and> self_body (example_request PNone PNone) = []
   \<and> Request_init example_env (PStr ''http://example.com/'') PNone (PStr ''GET'') PNone
       (PBytes [1, 255]) PNone PNone (PStr ''utf-8'') (PInt 0) (PBool False) PNone PNone PNone
     = Inr ((example_request PNone PNone)\<lparr>self_body := [1, 255]\<rparr>)
   \<and> self_body ((example_request PNone PNone)\<lparr>self_body := [1, 255]\<rparr>) = [1, 255]
   \<and> Request_init example_env (PStr ''http://example.com/'') PNone (PStr ''GET'') PNone
       (PStr ''ab'') PNone PNone (PStr ''utf-8'') (PInt 0) (PBool False) PNone PNone PNone
     = Inr ((example_request PNone PNone)\<lparr>self_body := map of_char ''ab''\<rparr>)
   \<and> str_encode example_env ''ab''
        (self_encoding ((example_request PNone PNone)\<lparr>self_body := map of_char ''ab''\<rparr>))
       = Inr (self_body ((example_request PNone PNone)\<lparr>self_body := map of_char ''ab''\<rparr>))"
proof -
  have g: "upper (py_str example_env (PStr ''GET'')) = ''GET''"
    by (simp add: py_str_def upper_def upper_char_def)
  have m: "self_method (example_request PNone PNone) = ''GET''"
    "self_url (example_request PNone PNone) = ''http://example.com/''"
    "self_body (example_request PNone PNone) = []"
    by (simp_all add: example_request_def)
  have 1: "Request_init example_env (PStr ''http://example.com/'') PNone (PStr ''GET'') PNone PNone PNone
       PNone (PStr ''utf-8'') (PInt 0) (PBool False) PNone PNone PNone
     = Inr (example_request PNone PNone)"
    using example_request_init_body [OF example_url, of PNone "[]" PNone PNone "PStr ''GET''"] g
    by (simp add: set_body_def example_request_def)
  have 2: "Request_init example_env (PStr ''http://example.com/'') PNone (PStr ''GET'') PNone
       (PBytes [1, 255]) PNone PNone (PStr ''utf-8'') (PInt 0) (PBool False) PNone PNone PNone
     = Inr ((example_request PNone PNone)\<lparr>self_body := [1, 255]\<rparr>)"
    using example_request_init_body [OF example_url, of "PBytes [1, 255]" "[1, 255]" PNone PNone "PStr ''GET''"] g
    by (simp add: set_body_def to_bytes_def example_request_def)
  have 3: "Request_init example_env (PStr ''http://example.com/'') PNone (PStr ''GET'') PNone
       (PStr ''ab'') PNone PNone (PStr ''utf-8'') (PInt 0) (PBool False) PNone PNone PNone
     = Inr ((example_request PNone PNone)\<lparr>self_body := map of_char ''ab''\<rparr>)"
    using example_request_init_body [OF example_url, of "PStr ''ab''" "map of_char ''ab''" PNone PNone "PStr ''GET''"] g
    by (simp add: set_body_def to_bytes_def example_request_def example_env_def)
  note t = body_is_bytes [where E = example_env, THEN conjunct1, rule_format]
  have 4: "self_body (example_request PNone PNone) = []"
    using t [OF 1] by simp
  have 5: "self_body ((example_request PNone PNone)\<lparr>self_body := [1, 255]\<rparr>) = [1, 255]"
    using t [OF 2] by simp
  have 6: "str_encode example_env ''ab''
        (self_encoding ((example_request PNone PNone)\<lparr>self_body := map of_char ''ab''\<rparr>))
       = Inr (self_body ((example_request PNone PNone)\<lparr>self_body := map of_char ''ab''\<rparr>))"
    by (rule t [OF 3, THEN conjunct2, THEN conjunct2, THEN conjunct2, THEN conjunct2,
          THEN conjunct2, rule_format]) (rule refl)
  show ?thesis by (intro conjI 1 2 3 4 5 6)
qed

section \<open>meta and cb\_kwargs are mappings\<close>

text \<open>
  Claim C8. For every request, the accessors \<^verbatim>\<open>meta\<close> and \<^verbatim>\<open>cb_kwargs\<close> return a
  dictionary, never \<^verbatim>\<open>None\<close>; after the access the slot holds that dictionary, and it
  still holds it, and the accessor still returns it, after any sequence of operations
  of the module on the request. A request constructed with \<^verbatim>\<open>meta=None\<close> and
  \<^verbatim>\<open>cb_kwargs=None\<close> has both slots \<^verbatim>\<open>None\<close>, and both accessors return the empty
  dictionary.
\<close>

theorem meta_and_cb_kwargs_are_mappings:
  "(\<exists>d. fst (getattr s A_meta) = PDict d
        \<and> self_meta (snd (getattr s A_meta)) = Some d
        \<and> self_meta (fold (perform E) ops (snd (getattr s A_meta))) = Some d
        \<and> fst (getattr (fold (perform E) ops (snd (getattr s A_meta))) A_meta) = PDict d)
   \<and> (\<exists>d. fst (getattr s A_cb_kwargs) = PDict d
        \<and> self_cb_kwargs (snd (getattr s A_cb_kwargs)) = Some d
        \<and> self_cb_kwargs (fold (perform E) ops (snd (getattr s A_cb_kwargs))) = Some d
        \<and> fst (getattr (fold (perform E) ops (snd (getattr s A_cb_kwargs))) A_cb_kwargs)
            = PDict d)
   \<and> fst (getattr s A_meta) \<noteq> PNone
   \<and> fst (getattr s A_cb_kwargs) \<noteq> PNone
   \<and> (Request_init E url cb m h b c PNone enc p df eb fl PNone = Inr r \<longrightarrow>
        self_meta r = None \<and> self_cb_kwargs r = None
        \<and> fst (getattr r A_meta) = PDict [] \<and> fst (getattr r A_cb_kwargs) = PDict [])"
proof (intro conjI impI)
  obtain d where g: "getattr s A_meta = (PDict d, s\<lparr>self_meta := Some d\<rparr>)"
    using getattr_meta by blast
  have "self_meta (s\<lparr>self_meta := Some d\<rparr>) = Some d" by simp
  then have k: "self_meta (fold (perform E) ops (s\<lparr>self_meta := Some d\<rparr>)) = Some d"
    by (rule run_keeps_meta)
  then have "fst (getattr (fold (perform E) ops (s\<lparr>self_meta := Some d\<rparr>)) A_meta) = PDict d"
    by (simp add: meta_def)
  with g k show "\<exists>d. fst (getattr s A_meta) = PDict d
        \<and> self_meta (snd (getattr s A_meta)) = Some d
        \<and> self_meta (fold (perform E) ops (snd (getattr s A_meta))) = Some d
        \<and> fst (getattr (fold (perform E) ops (snd (getattr s A_meta))) A_meta) = PDict d"
    by simp
  from g show "fst (getattr s A_meta) \<noteq> PNone" by simp
next
  obtain d where g: "getattr s A_cb_kwargs = (PDict d, s\<lparr>self_cb_kwargs := Some d\<rparr>)"
    using getattr_cb_kwargs by blast
  have "self_cb_kwargs (s\<lparr>self_cb_kwargs := Some d\<rparr>) = Some d" by simp
  then have k: "self_cb_kwargs (fold (perform E) ops (s\<lparr>self_cb_kwargs := Some d\<rparr>)) = Some d"
    by (rule run_keeps_cb_kwargs)
  then have "fst (getattr (fold (perform E) ops (s\<lparr>self_cb_kwargs := Some d\<rparr>)) A_cb_kwargs)
      = PDict d"
    by (simp add: cb_kwargs_def)
  with g k show "\<exists>d. fst (getattr s A_cb_kwargs) = PDict d
        \<and> self_cb_kwargs (snd (getattr s A_cb_kwargs)) = Some d
        \<and> self_cb_kwargs (fold (perform E) ops (snd (getattr s A_cb_kwargs))) = Some d
        \<and> fst (getattr (fold (perform E) ops (snd (getattr s A_cb_kwargs))) A_cb_kwargs)
            = PDict d"
    by simp
  from g show "fst (getattr s A_cb_kwargs) \<noteq> PNone" by simp
next
  assume a: "Request_init E url cb m h b c PNone enc p df eb fl PNone = Inr r"
  from Request_init_Inr(7) [OF a] show m: "self_meta r = None"
    by (simp add: dict_or_None_def)
  from Request_init_Inr(8) [OF a] show k: "self_cb_kwargs r = None"
    by (simp add: dict_or_None_def)
  from m show "fst (getattr r A_meta) = PDict []" by (simp add: meta_def)
  from k show "fst (getattr r A_cb_kwargs) = PDict []" by (simp add: cb_kwargs_def)
qed

text \<open>A request built with neither: both slots are \<^verbatim>\<open>None\<close>, both accessors give \<^verbatim>\<open>{}\<close>.\<close>

theorem meta_and_cb_kwargs_are_mappings_witness:
  "Request_init example_env (PStr ''http://example.com/'') PNone (PStr ''get'') PNone PNone
     PNone PNone (PStr ''utf-8'') (PInt 0) (PBool False) PNone PNone PNone
   = Inr (example_request PNone PNone)
   \<and> self_meta (example_request PNone PNone) = None
   \<and> self_cb_kwargs (example_request PNone PNone) = None
   \<and> fst (getattr (example_request PNone PNone) A_meta) = PDict []
   \<and> fst (getattr (example_request PNone PNone) A_cb_kwargs) = PDict []"
proof -
  have c: "Request_init example_env (PStr ''http://example.com/'') PNone (PStr ''get'') PNone PNone
     PNone PNone (PStr ''utf-8'') (PInt 0) (PBool False) PNone PNone PNone
     = Inr (example_request PNone PNone)"
    by (simp add: example_request_constructed)
  note t = meta_and_cb_kwargs_are_mappings [THEN conjunct2, THEN conjunct2, THEN conjunct2,
      THEN conjunct2, rule_format, OF c]
  from t c show ?thesis by (intro conjI) simp_all
qed

section \<open>from\_curl: explicit keyword arguments win\<close>

text \<open>
  Claim C9. \<^verbatim>\<open>from_curl\<close> is the constructor call on the parser's dictionary updated
  with the explicit keyword arguments: a key the caller passed has the caller's value,
  any other key has the parser's, and the validation is that of the direct call. An
  exception of the parser is passed on. For instance an explicit \<^verbatim>\<open>method\<close> is the one
  the request gets.
\<close>

theorem from_curl_explicit_wins:
  "(curl_to_request_kwargs E cmd ign = Inl e \<longrightarrow> from_curl E cmd ign kw = Inl e)
   \<and> (curl_to_request_kwargs E cmd ign = Inr rk \<and> distinct (map fst kw) \<longrightarrow>
        from_curl E cmd ign kw = call_Request E (dict_update rk kw)
        \<and> (\<forall>k. map_of (dict_update rk kw) k
               = (case map_of kw k of Some v \<Rightarrow> Some v | None \<Rightarrow> map_of rk k))
        \<and> (\<forall>v r. map_of kw ''method'' = Some v \<and> from_curl E cmd ign kw = Inr r \<longrightarrow>
               self_method r = upper (py_str E v)))"
proof (intro conjI impI allI)
  assume "curl_to_request_kwargs E cmd ign = Inl e"
  then show "from_curl E cmd ign kw = Inl e" by (simp add: from_curl_def)
next
  assume a: "curl_to_request_kwargs E cmd ign = Inr rk \<and> distinct (map fst kw)"
  then show f: "from_curl E cmd ign kw = call_Request E (dict_update rk kw)"
    by (simp add: from_curl_def)
  { fix k
    from a show l: "map_of (dict_update rk kw) k
        = (case map_of kw k of Some v \<Rightarrow> Some v | None \<Rightarrow> map_of rk k)"
      by (simp add: map_of_dict_update map_of_rev_distinct) }
  note l = this
  { fix v r
    assume b: "map_of kw ''method'' = Some v \<and> from_curl E cmd ign kw = Inr r"
    with f have "call_Request E (dict_update rk kw) = Inr r" by simp
    from call_Request_Inr [OF this] obtain url where
      "Request_init E url (kwarg (dict_update rk kw) ''callback'' PNone)
         (kwarg (dict_update rk kw) ''method'' (PStr ''GET''))
         (kwarg (dict_update rk kw) ''headers'' PNone) (kwarg (dict_update rk kw) ''body'' PNone)
         (kwarg (dict_update rk kw) ''cookies'' PNone) (kwarg (dict_update rk kw) ''meta'' PNone)
         (kwarg (dict_update rk kw) ''encoding'' (PStr ''utf-8''))
         (kwarg (dict_update rk kw) ''priority'' (PInt 0))
         (kwarg (dict_update rk kw) ''dont_filter'' (PBool False))
         (kwarg (dict_update rk kw) ''errback'' PNone) (kwarg (dict_update rk kw) ''flags'' PNone)
         (kwarg (dict_update rk kw) ''cb_kwargs'' PNone) = Inr r"
      by blast
    then have "self_method r = upper (py_str E (kwarg (dict_update rk kw) ''method'' (PStr ''GET'')))"
      by (rule Request_init_Inr)
    moreover from b l [of "''method''"] have "kwarg (dict_update rk kw) ''method'' (PStr ''GET'') = v"
      by (simp add: kwarg_def)
    ultimately show "self_method r = upper (py_str E v)" by simp }
qed

text \<open>
  The parser gives \<^verbatim>\<open>method="GET"\<close>; the caller passes \<^verbatim>\<open>method="post"\<close> and a priority.
\<close>

theorem from_curl_explicit_wins_witness:
  "curl_to_request_kwargs example_env ''curl http://example.com/'' (PBool True)
     = Inr [(''method'', PStr ''GET''), (''url'', PStr ''http://example.com/'')]
   \<and> distinct (map fst [(''method'', PStr ''post''), (''priority'', PInt 0)])
   \<and> dict_update [(''method'', PStr ''GET''), (''url'', PStr ''http://example.com/'')]
        [(''method'', PStr ''post''), (''priority'', PInt 0)]
       = [(''method'', PStr ''post''), (''url'', PStr ''http://example.com/''), (''priority'', PInt 0)]
   \<and> from_curl example_env ''curl http://example.com/'' (PBool True)
        [(''method'', PStr ''post''), (''priority'', PInt 0)]
       = Inr ((example_request PNone PNone)\<lparr>self_method := ''POST''\<rparr>)
   \<and> self_method ((example_request PNone PNone)\<lparr>self_method := ''POST''\<rparr>)
       = upper (py_str example_env (PStr ''post''))"
proof -
  let ?kw = "[(''method'', PStr ''post''), (''priority'', PInt 0)]"
  let ?rk = "[(''method'', PStr ''GET''), (''url'', PStr ''http://example.com/'')]"
  have p: "curl_to_request_kwargs example_env ''curl http://example.com/'' (PBool True) = Inr ?rk"
    by (simp add: example_env_def)
  have d: "distinct (map fst ?kw)" by simp
  have u: "dict_update ?rk ?kw
       = [(''method'', PStr ''post''), (''url'', PStr ''http://example.com/''), (''priority'', PInt 0)]"
    by simp
  note t = from_curl_explicit_wins [where E = example_env and cmd = "''curl http://example.com/''"
      and ign = "PBool True" and kw = ?kw and rk = ?rk, THEN conjunct2, rule_format, OF conjI, OF p d]
  have g: "upper (py_str example_env (PStr ''post'')) = ''POST''"
    by (simp add: py_str_def upper_def upper_char_def)
  have c: "call_Request example_env
       [(''method'', PStr ''post''), (''url'', PStr ''http://example.com/''), (''priority'', PInt 0)]
     = Inr ((example_request PNone PNone)\<lparr>self_method := ''POST''\<rparr>)"
    using example_request_init [OF example_url, of PNone PNone "PStr ''post''"] g
    by (simp add: call_Request_def parameter_names_def kwarg_def example_request_def)
  have f: "from_curl example_env ''curl http://example.com/'' (PBool True) ?kw
       = Inr ((example_request PNone PNone)\<lparr>self_method := ''POST''\<rparr>)"
    using t [THEN conjunct1] u c by simp
  have m: "self_method ((example_request PNone PNone)\<lparr>self_method := ''POST''\<rparr>)
       = upper (py_str example_env (PStr ''post''))"
    by (rule t [THEN conjunct2, THEN conjunct2, rule_format]) (simp add: f)
  show ?thesis by (intro conjI p d u f m)
qed

section \<open>replace and copy\<close>



end
